theory Spec2Isabelle
  imports Main
begin

section \<open>JavaScript values used by the payment code\<close>

text \<open>
  Strings are modelled as lists of 8-bit characters (code units below 256). Thrown
  exceptions are represented by their message: \<open>string + 'a\<close> with \<open>Inl\<close> the
  message of the thrown \<open>Error\<close>. Console output is not modelled.
\<close>

text \<open>White space and line terminators in the 8-bit range, as stripped by
  \<open>String.prototype.trim\<close> and by the string-to-BigInt conversion.\<close>

definition isWhiteSpace :: "char \<Rightarrow> bool" where
  "isWhiteSpace c = (of_char c \<in> {9::nat, 10, 11, 12, 13, 32, 160})"

definition trim :: "string \<Rightarrow> string" where
  "trim s = rev (dropWhile isWhiteSpace (rev (dropWhile isWhiteSpace s)))"

text \<open>Value of a digit character: \<open>0-9\<close>, \<open>a-z\<close>, \<open>A-Z\<close>.\<close>

definition digitValue :: "char \<Rightarrow> nat option" where
  "digitValue c =
     (let n = (of_char c :: nat) in
      if 48 \<le> n \<and> n \<le> 57 then Some (n - 48)
      else if 97 \<le> n \<and> n \<le> 122 then Some (n - 87)
      else if 65 \<le> n \<and> n \<le> 90 then Some (n - 55)
      else None)"

fun parseDigits :: "int \<Rightarrow> string \<Rightarrow> int \<Rightarrow> int option" where
  "parseDigits radix [] acc = Some acc"
| "parseDigits radix (c # cs) acc =
     (case digitValue c of
        None \<Rightarrow> None
      | Some d \<Rightarrow>
          if int d < radix then parseDigits radix cs (acc * radix + int d) else None)"

text \<open>A non-empty run of digits of the given radix.\<close>

definition digits :: "int \<Rightarrow> string \<Rightarrow> int option" where
  "digits radix s = (if s = [] then None else parseDigits radix s 0)"

text \<open>
  \<open>StringToBigInt\<close> of ECMAScript: the trimmed text is empty (value 0), an optionally
  signed run of decimal digits, or an unsigned literal with prefix \<open>0x\<close>, \<open>0o\<close>,
  \<open>0b\<close> (either case); anything else has no value.
\<close>

definition StringToBigInt :: "string \<Rightarrow> int option" where
  "StringToBigInt str =
     (case trim str of
        [] \<Rightarrow> Some 0
      | c # cs \<Rightarrow>
          if c = CHR ''+'' then digits 10 cs
          else if c = CHR ''-'' then map_option uminus (digits 10 cs)
          else if c = CHR ''0'' \<and> cs \<noteq> [] \<and> hd cs \<in> {CHR ''x'', CHR ''X''}
            then digits 16 (tl cs)
          else if c = CHR ''0'' \<and> cs \<noteq> [] \<and> hd cs \<in> {CHR ''o'', CHR ''O''}
            then digits 8 (tl cs)
          else if c = CHR ''0'' \<and> cs \<noteq> [] \<and> hd cs \<in> {CHR ''b'', CHR ''B''}
            then digits 2 (tl cs)
          else digits 10 (c # cs))"

text \<open>\<open>BigInt(s)\<close> for a string argument: the value, or a thrown \<open>SyntaxError\<close>.\<close>

definition BigInt :: "string \<Rightarrow> string + int" where
  "BigInt s =
     (case StringToBigInt s of
        None \<Rightarrow> Inl (''Cannot convert '' @ s @ '' to a BigInt'')
      | Some v \<Rightarrow> Inr v)"

text \<open>Decimal rendering of a bigint inside a template string.\<close>

function digits_of :: "int \<Rightarrow> string" where
  "digits_of n =
     (if n < 10 then [char_of (48 + n)]
      else digits_of (n div 10) @ [char_of (48 + n mod 10)])"
  by pat_completeness auto
termination
  by (relation "measure nat") auto

declare digits_of.simps [simp del]

definition string_of_bigint :: "int \<Rightarrow> string" where
  "string_of_bigint i = (if i < 0 then CHR ''-'' # digits_of (- i) else digits_of i)"

section \<open>Payment verification (SolanaPaymentExecutor)\<close>

datatype scheme = Exact | UpTo

record product_info =
  p_sku :: string
  p_name :: string
  p_version :: string

record extra_info =
  e_name :: string
  e_version :: string
  e_blockchain :: "string option"
  e_product :: product_info

text \<open>
  The requirements object, with the fields the merchant's tools put into it
  (\<open>mimeType\<close>, \<open>maxTimeoutSeconds\<close>) next to those of the interface
  \<open>SolanaPaymentRequirements\<close>.
\<close>

record SolanaPaymentRequirements =
  scheme :: scheme
  network :: string
  asset :: string
  payTo :: string
  maxAmountRequired :: string
  description :: string
  resource :: "string option"
  tokenMint :: "string option"
  mimeType :: "string option"
  maxTimeoutSeconds :: "int option"
  extra :: "extra_info option"

record SolanaPaymentPayload =
  payload_from :: string
  payload_to :: string
  payload_amount :: string
  payload_signature :: string
  payload_timestamp :: int
  payload_network :: string

record PaymentVerificationResult =
  isValid :: bool
  transactionSignature :: "string option"
  result_amount :: "int option"
  result_from :: "string option"
  result_to :: "string option"
  result_error :: "string option"

text \<open>The object \<open>{ isValid: false, error: msg }\<close>.\<close>

definition invalid :: "string \<Rightarrow> PaymentVerificationResult" where
  "invalid msg =
     \<lparr>isValid = False, transactionSignature = None, result_amount = None,
      result_from = None, result_to = None, result_error = Some msg\<rparr>"

definition wrong_address_msg :: "string \<Rightarrow> string \<Rightarrow> string" where
  "wrong_address_msg expected got =
     ''Payment sent to wrong address. Expected: '' @ expected @ '', Got: '' @ got"

definition incorrect_amount_msg :: "int \<Rightarrow> int \<Rightarrow> string" where
  "incorrect_amount_msg expected got =
     ''Incorrect payment amount. Expected: '' @ string_of_bigint expected
       @ '', Got: '' @ string_of_bigint got"

definition exceeds_maximum_msg :: "int \<Rightarrow> int \<Rightarrow> string" where
  "exceeds_maximum_msg mx got =
     ''Payment amount exceeds maximum. Max: '' @ string_of_bigint mx
       @ '', Got: '' @ string_of_bigint got"

definition wrong_network_msg :: "string \<Rightarrow> string \<Rightarrow> string" where
  "wrong_network_msg expected got =
     ''Wrong network. Expected: '' @ expected @ '', Got: '' @ got"

text \<open>The object returned when every check has passed.\<close>

definition accepted :: "SolanaPaymentPayload \<Rightarrow> int \<Rightarrow> PaymentVerificationResult" where
  "accepted payload paymentAmount =
     \<lparr>isValid = True,
      transactionSignature = Some (payload_signature payload),
      result_amount = Some paymentAmount,
      result_from = Some (payload_from payload),
      result_to = Some (payload_to payload),
      result_error = None\<rparr>"

text \<open>
  The body of the \<open>try\<close> block of \<open>verifyPayment\<close>: \<open>Inr\<close> is a returned result,
  \<open>Inl\<close> the message of an exception raised inside the block (only the two
  \<open>BigInt\<close> conversions can raise).
\<close>

definition verifyPayment_try ::
  "SolanaPaymentPayload \<Rightarrow> SolanaPaymentRequirements \<Rightarrow> string + PaymentVerificationResult"
where
  "verifyPayment_try payload requirements =
     (if payload_to payload \<noteq> payTo requirements
      then Inr (invalid (wrong_address_msg (payTo requirements) (payload_to payload)))
      else
        case BigInt (payload_amount payload) of
          Inl e \<Rightarrow> Inl e
        | Inr paymentAmount \<Rightarrow>
           (case BigInt (maxAmountRequired requirements) of
              Inl e \<Rightarrow> Inl e
            | Inr requiredAmount \<Rightarrow>
                if scheme requirements = Exact \<and> paymentAmount \<noteq> requiredAmount
                then Inr (invalid (incorrect_amount_msg requiredAmount paymentAmount))
                else if scheme requirements = UpTo \<and> paymentAmount > requiredAmount
                then Inr (invalid (exceeds_maximum_msg requiredAmount paymentAmount))
                else if payload_network payload \<noteq> network requirements
                then Inr (invalid (wrong_network_msg (network requirements)
                                     (payload_network payload)))
                else if payload_signature payload = []
                        \<or> length (payload_signature payload) < 64
                then Inr (invalid ''Invalid signature format'')
                else Inr (accepted payload paymentAmount)))"

text \<open>\<open>verifyPayment\<close>: the \<open>catch\<close> clause turns a raised error into a rejection
  carrying its message.\<close>

definition verifyPayment ::
  "SolanaPaymentPayload \<Rightarrow> SolanaPaymentRequirements \<Rightarrow> PaymentVerificationResult"
where
  "verifyPayment payload requirements =
     (case verifyPayment_try payload requirements of
        Inl e \<Rightarrow> invalid e
      | Inr res \<Rightarrow> res)"

section \<open>Requirement builders (merchant agent tools)\<close>

text \<open>Values a tool parameter can hold at run time (\<open>Record<string, any>\<close>).\<close>

datatype jsvalue =
  JSUndefined | JSNull | JSBoolean bool | JSNumber int | JSString string | JSObject

fun truthy :: "jsvalue \<Rightarrow> bool" where
  "truthy JSUndefined = False"
| "truthy JSNull = False"
| "truthy (JSBoolean b) = b"
| "truthy (JSNumber n) = (n \<noteq> 0)"
| "truthy (JSString s) = (s \<noteq> [])"
| "truthy JSObject = True"

fun typeof_string :: "jsvalue \<Rightarrow> bool" where
  "typeof_string (JSString s) = True"
| "typeof_string v = False"

fun string_value :: "jsvalue \<Rightarrow> string" where
  "string_value (JSString s) = s"
| "string_value v = []"

record tool_params =
  productName :: jsvalue
  product_name :: jsvalue

text \<open>\<open>params.productName || params.product_name || params\<close>; the last
  alternative is the parameter object itself.\<close>

definition resolveProductName :: "tool_params \<Rightarrow> jsvalue" where
  "resolveProductName params =
     (if truthy (productName params) then productName params
      else if truthy (product_name params) then product_name params
      else JSObject)"

text \<open>The guard
  \<open>!productName || typeof productName !== 'string' || productName.trim() === ''\<close>.\<close>

definition emptyProductName :: "jsvalue \<Rightarrow> bool" where
  "emptyProductName v =
     (\<not> truthy v \<or> \<not> typeof_string v \<or> trim (string_value v) = [])"

text \<open>Outcome of a payment tool: both outcomes are thrown, an ordinary \<open>Error\<close>
  or the \<open>x402PaymentRequiredException\<close> carrying the requirements.\<close>

datatype tool_outcome =
  ToolError string
| PaymentRequired string SolanaPaymentRequirements

text \<open>Configuration read from the environment when the module is loaded.\<close>

record merchant_config =
  WALLET_ADDRESS :: string
  NETWORK :: string
  USDC_CONTRACT :: string

definition getProductPrice :: "string \<Rightarrow> string" where
  "getProductPrice name = ''1000000''"

text \<open>\<open>(parseInt(price) / 1_000_000).toFixed(6)\<close> at the fixed price.\<close>

definition priceUSDC :: string where
  "priceUSDC = ''1.000000''"

definition getProductDetailsAndRequestPayment ::
  "merchant_config \<Rightarrow> tool_params \<Rightarrow> tool_outcome"
where
  "getProductDetailsAndRequestPayment cfg params =
     (let pn = resolveProductName params in
      if emptyProductName pn then ToolError ''Product name cannot be empty.''
      else
        let name = string_value pn; price = getProductPrice name in
        PaymentRequired (''Payment of '' @ priceUSDC @ '' USDC required for '' @ name)
          \<lparr>scheme = Exact,
           network = NETWORK cfg,
           asset = USDC_CONTRACT cfg,
           payTo = WALLET_ADDRESS cfg,
           maxAmountRequired = price,
           description = ''Payment for: '' @ name,
           resource = Some (''https://example.com/product/'' @ name),
           tokenMint = None,
           mimeType = Some ''application/json'',
           maxTimeoutSeconds = Some 1200,
           extra = Some \<lparr>e_name = ''USDC'', e_version = ''2'', e_blockchain = None,
                          e_product = \<lparr>p_sku = name @ ''_sku'', p_name = name,
                                       p_version = ''1''\<rparr>\<rparr>\<rparr>)"

text \<open>\<open>(priceSOL * 1e9).toString()\<close> with \<open>priceSOL = 0.1\<close>: the product is
  the double 100000000.\<close>

definition priceLamports :: string where
  "priceLamports = ''100000000''"

text \<open>
  The Solana tool. \<open>solanaMerchantAddress\<close> is a module variable assigned when the
  wallet has been created; until then it is undefined (\<open>None\<close>).
\<close>

definition getProductDetailsAndRequestSolanaPayment ::
  "string option \<Rightarrow> tool_params \<Rightarrow> tool_outcome"
where
  "getProductDetailsAndRequestSolanaPayment solanaMerchantAddress params =
     (let pn = resolveProductName params in
      if emptyProductName pn then ToolError ''Product name cannot be empty.''
      else
        let name = string_value pn in
        case solanaMerchantAddress of
          None \<Rightarrow> ToolError ''Solana wallet not initialized''
        | Some addr \<Rightarrow>
            if addr = [] then ToolError ''Solana wallet not initialized''
            else
              PaymentRequired (''Payment of 0.1 SOL required for '' @ name)
                \<lparr>scheme = Exact,
                 network = ''solana-devnet'',
                 asset = ''SOL'',
                 payTo = addr,
                 maxAmountRequired = priceLamports,
                 description = ''Payment for: '' @ name,
                 resource = Some (''https://example.com/product/'' @ name),
                 tokenMint = None,
                 mimeType = Some ''application/json'',
                 maxTimeoutSeconds = Some 1200,
                 extra = Some \<lparr>e_name = ''SOL'', e_version = ''2'',
                                e_blockchain = Some ''solana'',
                                e_product = \<lparr>p_sku = name @ ''_sku'', p_name = name,
                                             p_version = ''1''\<rparr>\<rparr>\<rparr>)"

section \<open>Confirmation polling and transfer (SolanaWallet)\<close>

datatype confirmation = Processed | Confirmed | Finalized

text \<open>One entry of the reply to \<open>getSignatureStatuses\<close>; \<open>err\<close> holds the JSON
  text of the transaction error, if there is one.\<close>

record signature_status =
  confirmationStatus :: "confirmation option"
  err :: "string option"

text \<open>A status query fails with an error, or yields \<open>value[0]\<close>, which is null
  while the ledger does not know the signature.\<close>

datatype rpc_reply = RpcError string | RpcValue "signature_status option"

datatype event =
  GetLatestBlockhash | SignTransaction | SendTransaction
| GetSignatureStatuses | Sleep nat

text \<open>What the \<open>try\<close> block of one loop iteration does with the reply: return from
  the function, raise an error, or fall through to the sleep.\<close>

datatype attempt = Return | Raise string | FallThrough

fun try_status :: "rpc_reply \<Rightarrow> attempt" where
  "try_status (RpcError e) = Raise e"
| "try_status (RpcValue None) = FallThrough"
| "try_status (RpcValue (Some status)) =
     (if confirmationStatus status = Some Confirmed
         \<or> confirmationStatus status = Some Finalized
      then (case err status of
              Some e \<Rightarrow> Raise (''Transaction failed: '' @ e)
            | None \<Rightarrow> Return)
      else FallThrough)"

text \<open>The loop's test for a terminal status: the reply holds a status whose
  \<open>confirmationStatus\<close> is \<open>confirmed\<close> or \<open>finalized\<close>.\<close>

fun terminal_status :: "rpc_reply \<Rightarrow> bool" where
  "terminal_status (RpcError e) = False"
| "terminal_status (RpcValue None) = False"
| "terminal_status (RpcValue (Some status)) =
     (confirmationStatus status = Some Confirmed
      \<or> confirmationStatus status = Some Finalized)"

text \<open>
  The loop of \<open>confirmTransaction\<close>. \<open>rpc n\<close> is the reply the node gives to the
  \<open>n\<close>-th status query for the signature being confirmed; the trace records every
  query and every sleep, and the number of queries made so far is read off the trace.
\<close>

function confirm_loop ::
  "(nat \<Rightarrow> rpc_reply) \<Rightarrow> nat \<Rightarrow> nat \<Rightarrow> event list \<Rightarrow> (string + unit) \<times> event list"
where
  "confirm_loop rpc maxRetries retries tr =
     (if retries < maxRetries then
        (case try_status (rpc (count_list tr GetSignatureStatuses)) of
           Return \<Rightarrow> (Inr (), tr @ [GetSignatureStatuses])
         | Raise e \<Rightarrow>
             if retries = maxRetries - 1 then (Inl e, tr @ [GetSignatureStatuses])
             else confirm_loop rpc maxRetries (retries + 1)
                    (tr @ [GetSignatureStatuses, Sleep 1000])
         | FallThrough \<Rightarrow>
             confirm_loop rpc maxRetries (retries + 1)
               (tr @ [GetSignatureStatuses, Sleep 1000]))
      else (Inl ''Transaction confirmation timeout'', tr))"
  by pat_completeness auto
termination
  by (relation "measure (\<lambda>(rpc, maxRetries, retries, tr). maxRetries - retries)") auto

declare confirm_loop.simps [simp del]

definition default_maxRetries :: nat where
  "default_maxRetries = 30"

definition confirmTransaction ::
  "(nat \<Rightarrow> rpc_reply) \<Rightarrow> nat \<Rightarrow> (string + unit) \<times> event list"
where
  "confirmTransaction rpc maxRetries = confirm_loop rpc maxRetries 0 []"

text \<open>\<open>n\<close> rounds of a status query followed by the sleep of one second.\<close>

abbreviation poll_and_sleep :: "nat \<Rightarrow> event list" where
  "poll_and_sleep n \<equiv> concat (replicate n [GetSignatureStatuses, Sleep 1000])"

text \<open>
  The ledger and the signing library as \<open>transferSol\<close> sees them: each call either
  raises (\<open>Inl\<close>, \<open>Some\<close> for the submission) or succeeds.
\<close>

record ledger =
  latestBlockhash :: "string + string"
  signedTransaction :: "string \<Rightarrow> int \<Rightarrow> string + string"
  sendTransaction :: "string option"
  signatureStatuses :: "nat \<Rightarrow> rpc_reply"

record transfer_result =
  success :: bool
  signature :: "string option"
  transfer_error :: "string option"

definition transfer_failed :: "string \<Rightarrow> transfer_result" where
  "transfer_failed msg = \<lparr>success = False, signature = None, transfer_error = Some msg\<rparr>"

text \<open>
  \<open>transferSol\<close>: fetch a blockhash, build and sign the transfer of \<open>amount\<close>
  lamports to \<open>destination\<close> (\<open>signedTransaction\<close> gives the signature of the
  signed transaction), submit it, poll for confirmation with the default budget. Every
  raised error ends in the \<open>catch\<close> clause.
\<close>

definition transferSol ::
  "ledger \<Rightarrow> string \<Rightarrow> int \<Rightarrow> transfer_result \<times> event list"
where
  "transferSol l destination amount =
     (case latestBlockhash l of
        Inl e \<Rightarrow> (transfer_failed e, [GetLatestBlockhash])
      | Inr blockhash \<Rightarrow>
         (case signedTransaction l destination amount of
            Inl e \<Rightarrow> (transfer_failed e, [GetLatestBlockhash, SignTransaction])
          | Inr sig \<Rightarrow>
             (case sendTransaction l of
                Some e \<Rightarrow>
                  (transfer_failed e, [GetLatestBlockhash, SignTransaction, SendTransaction])
              | None \<Rightarrow>
                 (case confirmTransaction (signatureStatuses l) default_maxRetries of
                    (Inl e, tr) \<Rightarrow>
                      (transfer_failed e,
                       [GetLatestBlockhash, SignTransaction, SendTransaction] @ tr)
                  | (Inr u, tr) \<Rightarrow>
                      (\<lparr>success = True, signature = Some sig, transfer_error = None\<rparr>,
                       [GetLatestBlockhash, SignTransaction, SendTransaction] @ tr)))))"

section \<open>Example data\<close>

text \<open>A merchant \<open>M1\<close> on network \<open>net-A\<close>, a payer \<open>C1\<close>, and a proof of 64
  characters.\<close>

definition example_requirements :: "scheme \<Rightarrow> string \<Rightarrow> SolanaPaymentRequirements" where
  "example_requirements sch amt =
     \<lparr>scheme = sch, network = ''net-A'', asset = ''SOL'', payTo = ''M1'',
      maxAmountRequired = amt, description = ''Payment for: banana'',
      resource = None, tokenMint = None, mimeType = None,
      maxTimeoutSeconds = Some 1200, extra = None\<rparr>"

definition example_payload :: "string \<Rightarrow> string \<Rightarrow> string \<Rightarrow> string \<Rightarrow> SolanaPaymentPayload" where
  "example_payload recipient amt net proof =
     \<lparr>payload_from = ''C1'', payload_to = recipient, payload_amount = amt,
      payload_signature = proof, payload_timestamp = 1762153200000,
      payload_network = net\<rparr>"

definition example_signature :: string where
  "example_signature = replicate 64 CHR ''5''"

definition banana_params :: tool_params where
  "banana_params = \<lparr>productName = JSString ''banana'', product_name = JSUndefined\<rparr>"

text \<open>Nodes that never report more than \<open>processed\<close>, that cannot be reached, and
  that report \<open>confirmed\<close> from the \<open>k\<close>-th query on.\<close>

definition pending_rpc :: "nat \<Rightarrow> rpc_reply" where
  "pending_rpc n = RpcValue (Some \<lparr>confirmationStatus = Some Processed, err = None\<rparr>)"

definition unreachable_rpc :: "nat \<Rightarrow> rpc_reply" where
  "unreachable_rpc n = RpcError ''fetch failed''"

definition confirmed_at :: "nat \<Rightarrow> nat \<Rightarrow> rpc_reply" where
  "confirmed_at k n =
     (if n < k then RpcValue None
      else RpcValue (Some \<lparr>confirmationStatus = Some Confirmed, err = None\<rparr>))"

definition example_ledger :: "(nat \<Rightarrow> rpc_reply) \<Rightarrow> ledger" where
  "example_ledger rpc =
     \<lparr>latestBlockhash = Inr ''blockhash1'',
      signedTransaction = (\<lambda>destination amount. Inr ''sig1''),
      sendTransaction = None,
      signatureStatuses = rpc\<rparr>"

section \<open>Properties of payment verification\<close>

subsection \<open>The result of each stage\<close>

lemma verifyPayment_wrong_recipient:
  "payload_to p \<noteq> payTo r \<Longrightarrow>
   verifyPayment p r = invalid (wrong_address_msg (payTo r) (payload_to p))"
  by (simp add: verifyPayment_def verifyPayment_try_def)

lemma verifyPayment_parsed:
  assumes "payload_to p = payTo r"
    and "BigInt (payload_amount p) = Inr a"
    and "BigInt (maxAmountRequired r) = Inr m"
  shows "verifyPayment p r =
     (if scheme r = Exact \<and> a \<noteq> m then invalid (incorrect_amount_msg m a)
      else if scheme r = UpTo \<and> a > m then invalid (exceeds_maximum_msg m a)
      else if payload_network p \<noteq> network r
        then invalid (wrong_network_msg (network r) (payload_network p))
      else if length (payload_signature p) < 64 then invalid ''Invalid signature format''
      else accepted p a)"
  using assms by (auto simp add: verifyPayment_def verifyPayment_try_def)

lemma verifyPayment_unparsed_amount:
  "payload_to p = payTo r \<Longrightarrow> BigInt (payload_amount p) = Inl e \<Longrightarrow>
   verifyPayment p r = invalid e"
  by (simp add: verifyPayment_def verifyPayment_try_def)

lemma verifyPayment_unparsed_required:
  "payload_to p = payTo r \<Longrightarrow> BigInt (payload_amount p) = Inr a \<Longrightarrow>
   BigInt (maxAmountRequired r) = Inl e \<Longrightarrow> verifyPayment p r = invalid e"
  by (simp add: verifyPayment_def verifyPayment_try_def)

lemma BigInt_5: "BigInt ''5'' = Inr 5"
  by code_simp

lemma BigInt_100000000: "BigInt ''100000000'' = Inr 100000000"
  by code_simp

lemma BigInt_300000000: "BigInt ''300000000'' = Inr 300000000"
  by code_simp

lemma BigInt_500000000: "BigInt ''500000000'' = Inr 500000000"
  by code_simp

lemma BigInt_600000000: "BigInt ''600000000'' = Inr 600000000"
  by code_simp

lemma BigInt_abc: "BigInt ''abc'' = Inl ''Cannot convert abc to a BigInt''"
  by code_simp

lemma incorrect_amount_msg_5:
  "incorrect_amount_msg 100000000 5 = ''Incorrect payment amount. Expected: 100000000, Got: 5''"
  by code_simp

lemma exceeds_maximum_msg_6:
  "exceeds_maximum_msg 500000000 600000000 =
     ''Payment amount exceeds maximum. Max: 500000000, Got: 600000000''"
  by code_simp

lemma length_example_signature: "length example_signature = 64"
  by (simp add: example_signature_def)

lemmas example_simps =
  example_requirements_def example_payload_def wrong_address_msg_def wrong_network_msg_def
  length_example_signature

subsection \<open>Order of the checks\<close>

text \<open>
  C1: \<open>verifyPayment\<close> checks recipient, amount, network and proof format in this
  order and stops at the first failure. A payload whose recipient differs from the
  requirement's is rejected with the wrong-address message whatever its amount, network
  and proof are; with the right recipient (and amounts that convert) an amount failure is
  reported whatever the network and the proof are, a network mismatch whatever the proof
  is, and a malformed proof only when the three earlier checks pass.
\<close>

theorem verifyPayment_check_order:
  "(payload_to p \<noteq> payTo r \<longrightarrow>
      verifyPayment p r = invalid (wrong_address_msg (payTo r) (payload_to p)))
   \<and> (payload_to p = payTo r \<and> BigInt (payload_amount p) = Inr a
        \<and> BigInt (maxAmountRequired r) = Inr m \<longrightarrow>
        (scheme r = Exact \<and> a \<noteq> m \<longrightarrow>
           verifyPayment p r = invalid (incorrect_amount_msg m a))
      \<and> (scheme r = UpTo \<and> a > m \<longrightarrow>
           verifyPayment p r = invalid (exceeds_maximum_msg m a))
      \<and> ((scheme r = Exact \<and> a = m \<or> scheme r = UpTo \<and> a \<le> m)
           \<and> payload_network p \<noteq> network r \<longrightarrow>
           verifyPayment p r = invalid (wrong_network_msg (network r) (payload_network p)))
      \<and> ((scheme r = Exact \<and> a = m \<or> scheme r = UpTo \<and> a \<le> m)
           \<and> payload_network p = network r \<and> length (payload_signature p) < 64 \<longrightarrow>
           verifyPayment p r = invalid ''Invalid signature format'')
      \<and> ((scheme r = Exact \<and> a = m \<or> scheme r = UpTo \<and> a \<le> m)
           \<and> payload_network p = network r \<and> 64 \<le> length (payload_signature p) \<longrightarrow>
           verifyPayment p r = accepted p a))"
  by (auto simp add: verifyPayment_wrong_recipient verifyPayment_parsed)

theorem verifyPayment_check_order_witness:
  "verifyPayment (example_payload ''X9'' ''5'' ''net-B'' ''abc'')
       (example_requirements Exact ''100000000'')
     = invalid ''Payment sent to wrong address. Expected: M1, Got: X9''
   \<and> verifyPayment (example_payload ''M1'' ''5'' ''net-B'' ''abc'')
       (example_requirements Exact ''100000000'')
     = invalid ''Incorrect payment amount. Expected: 100000000, Got: 5''
   \<and> verifyPayment (example_payload ''M1'' ''600000000'' ''net-B'' ''abc'')
       (example_requirements UpTo ''500000000'')
     = invalid ''Payment amount exceeds maximum. Max: 500000000, Got: 600000000''
   \<and> verifyPayment (example_payload ''M1'' ''100000000'' ''net-B'' ''abc'')
       (example_requirements Exact ''100000000'')
     = invalid ''Wrong network. Expected: net-A, Got: net-B''
   \<and> verifyPayment (example_payload ''M1'' ''300000000'' ''net-A'' ''abc'')
       (example_requirements UpTo ''500000000'')
     = invalid ''Invalid signature format''
   \<and> isValid (verifyPayment (example_payload ''M1'' ''300000000'' ''net-A'' example_signature)
       (example_requirements UpTo ''500000000''))"
proof -
  note ord = verifyPayment_check_order
  have c1: "verifyPayment (example_payload ''X9'' ''5'' ''net-B'' ''abc'')
       (example_requirements Exact ''100000000'')
     = invalid ''Payment sent to wrong address. Expected: M1, Got: X9''"
    using ord [of "example_payload ''X9'' ''5'' ''net-B'' ''abc''"
                  "example_requirements Exact ''100000000''" 5 100000000]
    by (simp add: example_simps)
  have c2: "verifyPayment (example_payload ''M1'' ''5'' ''net-B'' ''abc'')
       (example_requirements Exact ''100000000'')
     = invalid ''Incorrect payment amount. Expected: 100000000, Got: 5''"
    using ord [of "example_payload ''M1'' ''5'' ''net-B'' ''abc''"
                  "example_requirements Exact ''100000000''" 5 100000000]
    by (simp add: example_simps BigInt_5 BigInt_100000000 incorrect_amount_msg_5)
  have c3: "verifyPayment (example_payload ''M1'' ''600000000'' ''net-B'' ''abc'')
       (example_requirements UpTo ''500000000'')
     = invalid ''Payment amount exceeds maximum. Max: 500000000, Got: 600000000''"
    using ord [of "example_payload ''M1'' ''600000000'' ''net-B'' ''abc''"
                  "example_requirements UpTo ''500000000''" 600000000 500000000]
    by (simp add: example_simps BigInt_600000000 BigInt_500000000 exceeds_maximum_msg_6)
  have c4: "verifyPayment (example_payload ''M1'' ''100000000'' ''net-B'' ''abc'')
       (example_requirements Exact ''100000000'')
     = invalid ''Wrong network. Expected: net-A, Got: net-B''"
    using ord [of "example_payload ''M1'' ''100000000'' ''net-B'' ''abc''"
                  "example_requirements Exact ''100000000''" 100000000 100000000]
    by (simp add: example_simps BigInt_100000000)
  have c5: "verifyPayment (example_payload ''M1'' ''300000000'' ''net-A'' ''abc'')
       (example_requirements UpTo ''500000000'')
     = invalid ''Invalid signature format''"
    using ord [of "example_payload ''M1'' ''300000000'' ''net-A'' ''abc''"
                  "example_requirements UpTo ''500000000''" 300000000 500000000]
    by (simp add: example_simps BigInt_300000000 BigInt_500000000)
  have c6: "isValid (verifyPayment
       (example_payload ''M1'' ''300000000'' ''net-A'' example_signature)
       (example_requirements UpTo ''500000000''))"
    using ord [of "example_payload ''M1'' ''300000000'' ''net-A'' example_signature"
                  "example_requirements UpTo ''500000000''" 300000000 500000000]
    by (simp add: example_simps BigInt_300000000 BigInt_500000000 accepted_def)
  from c1 c2 c3 c4 c5 c6 show ?thesis by blast
qed


subsection \<open>Exact scheme\<close>

text \<open>
  C2 (as amended): for a requirement with scheme \<open>exact\<close>, a payload addressed to the
  required recipient whose amount converts to a value different from the required one is
  rejected with the incorrect-amount message, whatever its network and proof are.
\<close>

theorem verifyPayment_exact_amount_mismatch:
  assumes "scheme r = Exact"
    and "payload_to p = payTo r"
    and "BigInt (payload_amount p) = Inr a"
    and "BigInt (maxAmountRequired r) = Inr m"
    and "a \<noteq> m"
  shows "verifyPayment p r = invalid (incorrect_amount_msg m a)"
  using assms by (simp add: verifyPayment_parsed)

theorem verifyPayment_exact_amount_mismatch_witness:
  "verifyPayment (example_payload ''M1'' ''5'' ''net-B'' ''abc'')
       (example_requirements Exact ''100000000'')
     = invalid ''Incorrect payment amount. Expected: 100000000, Got: 5''"
  using verifyPayment_exact_amount_mismatch
          [of "example_requirements Exact ''100000000''"
              "example_payload ''M1'' ''5'' ''net-B'' ''abc''" 5 100000000]
  by (simp add: example_simps BigInt_5 BigInt_100000000 incorrect_amount_msg_5)

text \<open>With a wrong recipient as well, the wrong-address message is the one reported.\<close>

theorem verifyPayment_exact_amount_mismatch_counterexample:
  "scheme (example_requirements Exact ''100000000'') = Exact
   \<and> BigInt (payload_amount (example_payload ''X9'' ''5'' ''net-A'' example_signature))
       = Inr 5
   \<and> BigInt (maxAmountRequired (example_requirements Exact ''100000000'')) = Inr 100000000
   \<and> verifyPayment (example_payload ''X9'' ''5'' ''net-A'' example_signature)
        (example_requirements Exact ''100000000'')
       = invalid ''Payment sent to wrong address. Expected: M1, Got: X9''
   \<and> verifyPayment (example_payload ''X9'' ''5'' ''net-A'' example_signature)
        (example_requirements Exact ''100000000'')
       \<noteq> invalid (incorrect_amount_msg 100000000 5)"
  by (simp add: verifyPayment_wrong_recipient example_simps BigInt_5 BigInt_100000000
        incorrect_amount_msg_5 invalid_def)

subsection \<open>Up-to scheme\<close>

text \<open>
  C3 (as amended): for a requirement with scheme \<open>up-to\<close> and a payload addressed to
  the required recipient, an amount not above the required one is accepted when the
  network matches and the proof has at least 64 characters, and an amount above the
  required one is rejected with the exceeds-maximum message.
\<close>

theorem verifyPayment_up_to:
  assumes "scheme r = UpTo"
    and "payload_to p = payTo r"
    and "BigInt (payload_amount p) = Inr a"
    and "BigInt (maxAmountRequired r) = Inr m"
  shows "(a \<le> m \<and> payload_network p = network r \<and> 64 \<le> length (payload_signature p)
            \<longrightarrow> verifyPayment p r = accepted p a)
       \<and> (a > m \<longrightarrow> verifyPayment p r = invalid (exceeds_maximum_msg m a))"
  using assms by (auto simp add: verifyPayment_parsed)

theorem verifyPayment_up_to_witness:
  "verifyPayment (example_payload ''M1'' ''300000000'' ''net-A'' example_signature)
       (example_requirements UpTo ''500000000'')
     = accepted (example_payload ''M1'' ''300000000'' ''net-A'' example_signature) 300000000
   \<and> verifyPayment (example_payload ''M1'' ''600000000'' ''net-A'' example_signature)
       (example_requirements UpTo ''500000000'')
     = invalid ''Payment amount exceeds maximum. Max: 500000000, Got: 600000000''"
proof -
  have w1: "verifyPayment (example_payload ''M1'' ''300000000'' ''net-A'' example_signature)
       (example_requirements UpTo ''500000000'')
     = accepted (example_payload ''M1'' ''300000000'' ''net-A'' example_signature) 300000000"
    using verifyPayment_up_to
            [of "example_requirements UpTo ''500000000''"
                "example_payload ''M1'' ''300000000'' ''net-A'' example_signature"
                300000000 500000000]
    by (simp add: example_simps BigInt_300000000 BigInt_500000000)
  have w2: "verifyPayment (example_payload ''M1'' ''600000000'' ''net-A'' example_signature)
       (example_requirements UpTo ''500000000'')
     = invalid ''Payment amount exceeds maximum. Max: 500000000, Got: 600000000''"
    using verifyPayment_up_to
            [of "example_requirements UpTo ''500000000''"
                "example_payload ''M1'' ''600000000'' ''net-A'' example_signature"
                600000000 500000000]
    by (simp add: example_simps BigInt_600000000 BigInt_500000000 exceeds_maximum_msg_6)
  from w1 w2 show ?thesis by simp
qed

text \<open>An excessive amount sent to a wrong recipient is reported as a wrong address; and
  the three-character proof \<open>abc\<close> fails the format check.\<close>

theorem verifyPayment_up_to_counterexample:
  "scheme (example_requirements UpTo ''500000000'') = UpTo
   \<and> BigInt (payload_amount (example_payload ''X9'' ''600000000'' ''net-A'' example_signature))
       = Inr 600000000
   \<and> BigInt (maxAmountRequired (example_requirements UpTo ''500000000'')) = Inr 500000000
   \<and> verifyPayment (example_payload ''X9'' ''600000000'' ''net-A'' example_signature)
        (example_requirements UpTo ''500000000'')
       = invalid ''Payment sent to wrong address. Expected: M1, Got: X9''
   \<and> verifyPayment (example_payload ''X9'' ''600000000'' ''net-A'' example_signature)
        (example_requirements UpTo ''500000000'')
       \<noteq> invalid (exceeds_maximum_msg 500000000 600000000)
   \<and> verifyPayment (example_payload ''M1'' ''300000000'' ''net-A'' ''abc'')
        (example_requirements UpTo ''500000000'')
       = invalid ''Invalid signature format''"
proof -
  have "verifyPayment (example_payload ''M1'' ''300000000'' ''net-A'' ''abc'')
        (example_requirements UpTo ''500000000'')
       = invalid ''Invalid signature format''"
    using verifyPayment_parsed
            [of "example_payload ''M1'' ''300000000'' ''net-A'' ''abc''"
                "example_requirements UpTo ''500000000''" 300000000 500000000]
    by (simp add: example_simps BigInt_300000000 BigInt_500000000)
  then show ?thesis
    by (simp add: verifyPayment_wrong_recipient example_simps BigInt_600000000
          BigInt_500000000 exceeds_maximum_msg_6 invalid_def)
qed

subsection \<open>Expiry\<close>

text \<open>
  C5 (as amended): verification looks neither at the time the payload was created nor at
  the validity period of the requirement; payloads that differ only in their timestamp,
  checked against requirements that differ only in their timeout, get the same result.
\<close>

theorem verifyPayment_ignores_time:
  "verifyPayment (p\<lparr>payload_timestamp := t\<rparr>) (r\<lparr>maxTimeoutSeconds := s\<rparr>)
     = verifyPayment p r"
  by (simp add: verifyPayment_def verifyPayment_try_def accepted_def split: sum.split)

theorem verifyPayment_ignores_time_witness:
  "verifyPayment
     ((example_payload ''M1'' ''100000000'' ''net-A'' example_signature)
        \<lparr>payload_timestamp := 1762240800000\<rparr>)
     ((example_requirements Exact ''100000000'')\<lparr>maxTimeoutSeconds := Some 1\<rparr>)
   = verifyPayment (example_payload ''M1'' ''100000000'' ''net-A'' example_signature)
       (example_requirements Exact ''100000000'')"
  using verifyPayment_ignores_time
          [where p = "example_payload ''M1'' ''100000000'' ''net-A'' example_signature"
             and t = 1762240800000
             and r = "example_requirements Exact ''100000000''"
             and s = "Some 1"]
  by simp

text \<open>A payload created a day after a requirement with a validity of 1200 seconds
  could have been issued at the earliest is accepted.\<close>

theorem verifyPayment_expiry_counterexample:
  "maxTimeoutSeconds (example_requirements Exact ''100000000'') = Some 1200
   \<and> payload_timestamp
        ((example_payload ''M1'' ''100000000'' ''net-A'' example_signature)
           \<lparr>payload_timestamp := 1762153200000 + 1000 * 1200 + 86400000\<rparr>)
       = 1762240800000
   \<and> isValid (verifyPayment
        ((example_payload ''M1'' ''100000000'' ''net-A'' example_signature)
           \<lparr>payload_timestamp := 1762153200000 + 1000 * 1200 + 86400000\<rparr>)
        (example_requirements Exact ''100000000''))"
proof -
  have "isValid (verifyPayment
        ((example_payload ''M1'' ''100000000'' ''net-A'' example_signature)
           \<lparr>payload_timestamp := 1762153200000 + 1000 * 1200 + 86400000\<rparr>)
        (example_requirements Exact ''100000000''))"
    using verifyPayment_parsed
            [of "(example_payload ''M1'' ''100000000'' ''net-A'' example_signature)
                   \<lparr>payload_timestamp := 1762153200000 + 1000 * 1200 + 86400000\<rparr>"
                "example_requirements Exact ''100000000''" 100000000 100000000]
    by (simp add: example_simps BigInt_100000000 accepted_def)
  then show ?thesis by (simp add: example_simps)
qed

subsection \<open>Shape of the result\<close>

text \<open>
  C10: \<open>verifyPayment\<close> always returns a result, also when an amount string does not
  convert (the conversion error becomes the rejection message). The result carries an
  error message exactly when it is not valid, and a valid result repeats the payload's
  signature, sender, recipient and (converted) amount.
\<close>

theorem verifyPayment_result_shape:
  "(isValid (verifyPayment p r) \<longleftrightarrow> result_error (verifyPayment p r) = None)
   \<and> (isValid (verifyPayment p r) \<longrightarrow>
        transactionSignature (verifyPayment p r) = Some (payload_signature p)
        \<and> (\<exists>a. BigInt (payload_amount p) = Inr a \<and> result_amount (verifyPayment p r) = Some a)
        \<and> result_from (verifyPayment p r) = Some (payload_from p)
        \<and> result_to (verifyPayment p r) = Some (payload_to p))
   \<and> (payload_to p = payTo r \<and> BigInt (payload_amount p) = Inl e \<longrightarrow>
        verifyPayment p r = invalid e)"
  by (simp add: verifyPayment_def verifyPayment_try_def accepted_def invalid_def
        split: sum.split)

theorem verifyPayment_result_shape_witness:
  "isValid (verifyPayment (example_payload ''M1'' ''100000000'' ''net-A'' example_signature)
       (example_requirements Exact ''100000000''))
   \<and> result_amount (verifyPayment
         (example_payload ''M1'' ''100000000'' ''net-A'' example_signature)
         (example_requirements Exact ''100000000'')) = Some 100000000
   \<and> result_from (verifyPayment
         (example_payload ''M1'' ''100000000'' ''net-A'' example_signature)
         (example_requirements Exact ''100000000'')) = Some ''C1''
   \<and> verifyPayment (example_payload ''M1'' ''abc'' ''net-A'' example_signature)
         (example_requirements Exact ''100000000'')
       = invalid ''Cannot convert abc to a BigInt''"
proof -
  have v: "isValid (verifyPayment
       (example_payload ''M1'' ''100000000'' ''net-A'' example_signature)
       (example_requirements Exact ''100000000''))"
    using verifyPayment_parsed
            [of "example_payload ''M1'' ''100000000'' ''net-A'' example_signature"
                "example_requirements Exact ''100000000''" 100000000 100000000]
    by (simp add: example_simps BigInt_100000000 accepted_def)
  have w1: "result_amount (verifyPayment
         (example_payload ''M1'' ''100000000'' ''net-A'' example_signature)
         (example_requirements Exact ''100000000'')) = Some 100000000
     \<and> result_from (verifyPayment
         (example_payload ''M1'' ''100000000'' ''net-A'' example_signature)
         (example_requirements Exact ''100000000'')) = Some ''C1''"
    using v verifyPayment_result_shape
            [of "example_payload ''M1'' ''100000000'' ''net-A'' example_signature"
                "example_requirements Exact ''100000000''" "[]"]
    by (auto simp add: example_simps BigInt_100000000)
  have w2: "verifyPayment (example_payload ''M1'' ''abc'' ''net-A'' example_signature)
         (example_requirements Exact ''100000000'')
       = invalid ''Cannot convert abc to a BigInt''"
    using verifyPayment_result_shape
            [of "example_payload ''M1'' ''abc'' ''net-A'' example_signature"
                "example_requirements Exact ''100000000''" "''Cannot convert abc to a BigInt''"]
    by (simp add: example_simps BigInt_abc)
  from v w1 w2 show ?thesis by simp
qed

section \<open>Properties of the requirement builders\<close>

lemma trim_eq_Nil_iff: "trim s = [] \<longleftrightarrow> (\<forall>c\<in>set s. isWhiteSpace c)"
proof
  assume t: "trim s = []"
  show "\<forall>c\<in>set s. isWhiteSpace c"
  proof (cases "dropWhile isWhiteSpace s")
    case Nil
    then show ?thesis by (simp add: dropWhile_eq_Nil_conv)
  next
    case (Cons x xs)
    then have "\<not> isWhiteSpace x" using hd_dropWhile [of isWhiteSpace s] by simp
    moreover from t Cons have "\<forall>c\<in>set (x # xs). isWhiteSpace c"
      by (simp add: trim_def dropWhile_eq_Nil_conv)
    ultimately show ?thesis by simp
  qed
next
  assume "\<forall>c\<in>set s. isWhiteSpace c"
  then show "trim s = []" by (auto simp add: trim_def dest: set_dropWhileD)
qed

lemma emptyProductName_iff:
  "emptyProductName v \<longleftrightarrow> (\<forall>s. v = JSString s \<longrightarrow> (\<forall>c\<in>set s. isWhiteSpace c))"
  by (cases v) (auto simp add: emptyProductName_def trim_eq_Nil_iff)

lemma evm_builder_empty:
  "emptyProductName (resolveProductName params) \<Longrightarrow>
   getProductDetailsAndRequestPayment cfg params = ToolError ''Product name cannot be empty.''"
  by (simp add: getProductDetailsAndRequestPayment_def)

lemma evm_builder_named:
  "\<not> emptyProductName (resolveProductName params) \<Longrightarrow>
   \<exists>msg req. getProductDetailsAndRequestPayment cfg params = PaymentRequired msg req
     \<and> scheme req = Exact \<and> maxAmountRequired req = ''1000000''
     \<and> payTo req = WALLET_ADDRESS cfg \<and> network req = NETWORK cfg"
  by (simp add: getProductDetailsAndRequestPayment_def Let_def getProductPrice_def)

lemma solana_builder_empty:
  "emptyProductName (resolveProductName params) \<Longrightarrow>
   getProductDetailsAndRequestSolanaPayment addr params
     = ToolError ''Product name cannot be empty.''"
  by (simp add: getProductDetailsAndRequestSolanaPayment_def)

lemma solana_builder_uninitialized:
  "\<not> emptyProductName (resolveProductName params) \<Longrightarrow> addr = None \<or> addr = Some [] \<Longrightarrow>
   getProductDetailsAndRequestSolanaPayment addr params
     = ToolError ''Solana wallet not initialized''"
  by (auto simp add: getProductDetailsAndRequestSolanaPayment_def Let_def)

lemma solana_builder_named:
  "\<not> emptyProductName (resolveProductName params) \<Longrightarrow> a \<noteq> [] \<Longrightarrow>
   \<exists>msg req. getProductDetailsAndRequestSolanaPayment (Some a) params = PaymentRequired msg req
     \<and> scheme req = Exact \<and> maxAmountRequired req = ''100000000''
     \<and> payTo req = a \<and> network req = ''solana-devnet''"
  by (simp add: getProductDetailsAndRequestSolanaPayment_def Let_def priceLamports_def)

lemma resolve_banana: "resolveProductName banana_params = JSString ''banana''"
  by (simp add: resolveProductName_def banana_params_def)

lemma banana_not_empty: "\<not> emptyProductName (JSString ''banana'')"
  by (simp add: emptyProductName_iff isWhiteSpace_def)

text \<open>
  C9 (as amended): both builders fail with the empty-name error exactly when the product
  name is not a string or is a string of white space only (the empty string included).
  For every other name the EVM builder succeeds with the price 1000000, and the Solana
  builder succeeds with the price 100000000 when the merchant's Solana address has been
  initialised; the prices do not depend on the name. While the address is not
  initialised the Solana builder fails for every name.
\<close>

theorem requirement_builders:
  "(getProductDetailsAndRequestPayment cfg params = ToolError ''Product name cannot be empty.''
      \<longleftrightarrow> (\<forall>s. resolveProductName params = JSString s \<longrightarrow> (\<forall>c\<in>set s. isWhiteSpace c)))
   \<and> (getProductDetailsAndRequestSolanaPayment addr params
        = ToolError ''Product name cannot be empty.''
      \<longleftrightarrow> (\<forall>s. resolveProductName params = JSString s \<longrightarrow> (\<forall>c\<in>set s. isWhiteSpace c)))
   \<and> (resolveProductName params = JSString s \<and> (\<exists>c\<in>set s. \<not> isWhiteSpace c) \<longrightarrow>
        (\<exists>msg req. getProductDetailsAndRequestPayment cfg params = PaymentRequired msg req
           \<and> scheme req = Exact \<and> maxAmountRequired req = ''1000000'')
      \<and> (addr = Some a \<and> a \<noteq> [] \<longrightarrow>
           (\<exists>msg req. getProductDetailsAndRequestSolanaPayment addr params
                        = PaymentRequired msg req
              \<and> scheme req = Exact \<and> maxAmountRequired req = ''100000000''))
      \<and> (addr = None \<or> addr = Some [] \<longrightarrow>
           getProductDetailsAndRequestSolanaPayment addr params
             = ToolError ''Solana wallet not initialized''))"
proof (cases "emptyProductName (resolveProductName params)")
  case True
  then show ?thesis
    using evm_builder_empty [of params cfg] solana_builder_empty [of params addr]
    by (auto simp add: emptyProductName_iff)
next
  case False
  have evm: "\<exists>msg req. getProductDetailsAndRequestPayment cfg params = PaymentRequired msg req
     \<and> scheme req = Exact \<and> maxAmountRequired req = ''1000000''"
    using evm_builder_named [OF False, of cfg] by blast
  have sol1: "addr = Some a \<and> a \<noteq> [] \<longrightarrow>
     (\<exists>msg req. getProductDetailsAndRequestSolanaPayment addr params = PaymentRequired msg req
        \<and> scheme req = Exact \<and> maxAmountRequired req = ''100000000'')"
    using solana_builder_named [OF False, of a] by blast
  have sol2: "addr = None \<or> addr = Some [] \<longrightarrow>
     getProductDetailsAndRequestSolanaPayment addr params
       = ToolError ''Solana wallet not initialized''"
    using solana_builder_uninitialized [OF False, of addr] by blast
  have sol3: "getProductDetailsAndRequestSolanaPayment addr params
       \<noteq> ToolError ''Product name cannot be empty.''"
  proof (cases "addr = None \<or> addr = Some []")
    case True
    with sol2 show ?thesis by simp
  next
    case False
    then have "addr \<noteq> None" and "addr \<noteq> Some []" by simp_all
    then obtain b where "addr = Some b" "b \<noteq> []" by (cases addr) auto
    with solana_builder_named [OF \<open>\<not> emptyProductName (resolveProductName params)\<close>, of b]
    show ?thesis by auto
  qed
  from evm have evm3: "getProductDetailsAndRequestPayment cfg params
       \<noteq> ToolError ''Product name cannot be empty.''" by auto
  from False have nonempty:
    "\<not> (\<forall>s. resolveProductName params = JSString s \<longrightarrow> (\<forall>c\<in>set s. isWhiteSpace c))"
    by (simp add: emptyProductName_iff)
  from evm sol1 sol2 sol3 evm3 nonempty show ?thesis by blast
qed

theorem requirement_builders_witness:
  "(\<exists>msg req. getProductDetailsAndRequestPayment
        \<lparr>WALLET_ADDRESS = ''0xM1'', NETWORK = ''base-sepolia'', USDC_CONTRACT = ''0x036C''\<rparr>
        banana_params = PaymentRequired msg req \<and> maxAmountRequired req = ''1000000'')
   \<and> (\<exists>msg req. getProductDetailsAndRequestSolanaPayment (Some ''M1'') banana_params
        = PaymentRequired msg req \<and> maxAmountRequired req = ''100000000'')
   \<and> getProductDetailsAndRequestPayment
        \<lparr>WALLET_ADDRESS = ''0xM1'', NETWORK = ''base-sepolia'', USDC_CONTRACT = ''0x036C''\<rparr>
        \<lparr>productName = JSString '' '', product_name = JSString ''banana''\<rparr>
       = ToolError ''Product name cannot be empty.''"
proof -
  note rb = requirement_builders
  have sp: "isWhiteSpace CHR '' ''" by (simp add: isWhiteSpace_def)
  have nb: "\<exists>c\<in>set ''banana''. \<not> isWhiteSpace c" by (simp add: isWhiteSpace_def)
  have r2: "resolveProductName \<lparr>productName = JSString '' '', product_name = JSString ''banana''\<rparr>
              = JSString '' ''"
    by (simp add: resolveProductName_def)
  have w1: "\<exists>msg req. getProductDetailsAndRequestPayment
        \<lparr>WALLET_ADDRESS = ''0xM1'', NETWORK = ''base-sepolia'', USDC_CONTRACT = ''0x036C''\<rparr>
        banana_params = PaymentRequired msg req \<and> maxAmountRequired req = ''1000000''"
    using rb [of "\<lparr>WALLET_ADDRESS = ''0xM1'', NETWORK = ''base-sepolia'',
                    USDC_CONTRACT = ''0x036C''\<rparr>" banana_params "Some ''M1''"
                 "''banana''" "''M1''"] nb resolve_banana
    by blast
  have w2: "\<exists>msg req. getProductDetailsAndRequestSolanaPayment (Some ''M1'') banana_params
        = PaymentRequired msg req \<and> maxAmountRequired req = ''100000000''"
    using rb [of "\<lparr>WALLET_ADDRESS = ''0xM1'', NETWORK = ''base-sepolia'',
                    USDC_CONTRACT = ''0x036C''\<rparr>" banana_params "Some ''M1''"
                 "''banana''" "''M1''"] nb resolve_banana
    by auto
  have w3: "getProductDetailsAndRequestPayment
        \<lparr>WALLET_ADDRESS = ''0xM1'', NETWORK = ''base-sepolia'', USDC_CONTRACT = ''0x036C''\<rparr>
        \<lparr>productName = JSString '' '', product_name = JSString ''banana''\<rparr>
       = ToolError ''Product name cannot be empty.''"
    using rb [of "\<lparr>WALLET_ADDRESS = ''0xM1'', NETWORK = ''base-sepolia'',
                    USDC_CONTRACT = ''0x036C''\<rparr>"
                 "\<lparr>productName = JSString '' '', product_name = JSString ''banana''\<rparr>"
                 None "[]" "[]"] r2 sp
    by simp
  from w1 w2 w3 show ?thesis by blast
qed

text \<open>With a valid product name and the Solana address not yet initialised the Solana
  builder fails.\<close>

theorem requirement_builders_counterexample:
  "resolveProductName banana_params = JSString ''banana''
   \<and> \<not> emptyProductName (JSString ''banana'')
   \<and> getProductDetailsAndRequestSolanaPayment None banana_params
       = ToolError ''Solana wallet not initialized''"
  using solana_builder_uninitialized [of banana_params None]
  by (simp add: resolve_banana banana_not_empty)

text \<open>
  C4: the requirement the Solana builder issues for the product \<open>banana\<close> has scheme
  \<open>exact\<close> and amount 100000000, and a payload that claims 100000000 to the same
  recipient on the same network with a proof of at least 64 characters is verified as
  valid against it.
\<close>

theorem banana_round_trip:
  assumes "resolveProductName params = JSString ''banana''"
    and "getProductDetailsAndRequestSolanaPayment addr params = PaymentRequired msg req"
    and "payload_to p = payTo req"
    and "payload_amount p = ''100000000''"
    and "payload_network p = network req"
    and "64 \<le> length (payload_signature p)"
  shows "scheme req = Exact \<and> maxAmountRequired req = ''100000000''
         \<and> isValid (verifyPayment p req)"
proof -
  have ne: "\<not> emptyProductName (resolveProductName params)"
    using assms(1) banana_not_empty by simp
  have init: "\<not> (addr = None \<or> addr = Some [])"
  proof
    assume "addr = None \<or> addr = Some []"
    from solana_builder_uninitialized [OF ne this] assms(2) show False by simp
  qed
  then have "addr \<noteq> None" and "addr \<noteq> Some []" by simp_all
  then obtain a where a: "addr = Some a" "a \<noteq> []" by (cases addr) auto
  from solana_builder_named [OF ne a(2)] a(1) assms(2)
  have req: "scheme req = Exact" "maxAmountRequired req = ''100000000''" by auto
  have "verifyPayment p req = accepted p 100000000"
    using verifyPayment_parsed [of p req 100000000 100000000] assms(3-6) req
    by (simp add: BigInt_100000000)
  with req show ?thesis by (simp add: accepted_def)
qed

theorem banana_round_trip_witness:
  "\<exists>msg req.
     getProductDetailsAndRequestSolanaPayment (Some ''M1'') banana_params
       = PaymentRequired msg req
     \<and> isValid (verifyPayment
           (example_payload ''M1'' ''100000000'' ''solana-devnet'' example_signature) req)"
proof -
  obtain msg req where b:
    "getProductDetailsAndRequestSolanaPayment (Some ''M1'') banana_params
       = PaymentRequired msg req"
    "payTo req = ''M1''" "network req = ''solana-devnet''"
    using solana_builder_named [of banana_params "''M1''"]
    by (auto simp add: resolve_banana banana_not_empty)
  have "isValid (verifyPayment
     (example_payload ''M1'' ''100000000'' ''solana-devnet'' example_signature) req)"
    using banana_round_trip
            [of banana_params "Some ''M1''" msg req
                "example_payload ''M1'' ''100000000'' ''solana-devnet'' example_signature"]
          b
    by (simp add: resolve_banana example_simps)
  with b(1) show ?thesis by blast
qed

section \<open>Properties of confirmation polling\<close>

lemma try_status_Return_iff:
  "try_status reply = Return \<longleftrightarrow>
     (\<exists>status. reply = RpcValue (Some status)
        \<and> (confirmationStatus status = Some Confirmed
             \<or> confirmationStatus status = Some Finalized)
        \<and> err status = None)"
  by (cases reply rule: try_status.cases) (auto split: option.splits)

lemma try_status_not_terminal:
  "\<not> terminal_status reply \<Longrightarrow>
   try_status reply = (case reply of RpcError e \<Rightarrow> Raise e | RpcValue v \<Rightarrow> FallThrough)"
  by (cases reply rule: try_status.cases) auto

lemma confirm_loop_continue:
  assumes "retries + 1 < maxRetries"
    and "try_status (rpc (count_list tr GetSignatureStatuses)) \<noteq> Return"
  shows "confirm_loop rpc maxRetries retries tr
           = confirm_loop rpc maxRetries (retries + 1)
               (tr @ [GetSignatureStatuses, Sleep 1000])"
  using assms
  by (subst confirm_loop.simps) (auto split: attempt.splits)

lemma confirm_loop_return:
  assumes "retries < maxRetries"
    and "try_status (rpc (count_list tr GetSignatureStatuses)) = Return"
  shows "confirm_loop rpc maxRetries retries tr = (Inr (), tr @ [GetSignatureStatuses])"
  using assms by (subst confirm_loop.simps) simp

lemma confirm_loop_first_return:
  assumes "retries + d < maxRetries"
    and "\<forall>j<d. try_status (rpc (count_list tr GetSignatureStatuses + j)) \<noteq> Return"
    and "try_status (rpc (count_list tr GetSignatureStatuses + d)) = Return"
  shows "confirm_loop rpc maxRetries retries tr
           = (Inr (), tr @ poll_and_sleep d @ [GetSignatureStatuses])"
  using assms
proof (induction d arbitrary: retries tr)
  case 0
  then show ?case by (simp add: confirm_loop_return)
next
  case (Suc d)
  let ?tr = "tr @ [GetSignatureStatuses, Sleep 1000]"
  have c: "count_list ?tr GetSignatureStatuses = count_list tr GetSignatureStatuses + 1"
    by simp
  from Suc.prems(2) have "try_status (rpc (count_list tr GetSignatureStatuses)) \<noteq> Return"
    by (metis add.right_neutral zero_less_Suc)
  with Suc.prems(1)
  have step: "confirm_loop rpc maxRetries retries tr
                = confirm_loop rpc maxRetries (retries + 1) ?tr"
    by (simp add: confirm_loop_continue)
  have "confirm_loop rpc maxRetries (retries + 1) ?tr
          = (Inr (), ?tr @ poll_and_sleep d @ [GetSignatureStatuses])"
  proof (rule Suc.IH)
    show "retries + 1 + d < maxRetries" using Suc.prems(1) by simp
    show "\<forall>j<d. try_status (rpc (count_list ?tr GetSignatureStatuses + j)) \<noteq> Return"
      using Suc.prems(2) unfolding c by (metis Suc_eq_plus1 Suc_less_eq add_Suc_shift)
    show "try_status (rpc (count_list ?tr GetSignatureStatuses + d)) = Return"
      using Suc.prems(3) unfolding c by simp
  qed
  with step show ?case by simp
qed

text \<open>
  C6: when the \<open>k\<close>-th status query (counting from 0, \<open>k < maxRetries\<close>) is the first
  to see a status that is confirmed or finalized and carries no error, the poller returns
  normally right after that query: the run consists of \<open>k\<close> query-and-sleep rounds
  followed by the successful query, with no sleep after it.
\<close>

theorem confirmTransaction_returns_at_first_success:
  assumes "k < maxRetries"
    and "rpc k = RpcValue (Some status)"
    and "confirmationStatus status = Some Confirmed
         \<or> confirmationStatus status = Some Finalized"
    and "err status = None"
    and "\<forall>j<k. try_status (rpc j) \<noteq> Return"
  shows "confirmTransaction rpc maxRetries
           = (Inr (), poll_and_sleep k @ [GetSignatureStatuses])
         \<and> last (snd (confirmTransaction rpc maxRetries)) = GetSignatureStatuses
         \<and> count_list (snd (confirmTransaction rpc maxRetries)) GetSignatureStatuses = k + 1
         \<and> count_list (snd (confirmTransaction rpc maxRetries)) (Sleep 1000) = k"
proof -
  have "try_status (rpc k) = Return"
    using assms(2-4) by (auto simp add: try_status_Return_iff)
  with assms(1,5)
  have r: "confirmTransaction rpc maxRetries
             = (Inr (), poll_and_sleep k @ [GetSignatureStatuses])"
    unfolding confirmTransaction_def
    using confirm_loop_first_return [of 0 k maxRetries rpc "[]"] by simp
  have q: "count_list (poll_and_sleep k) GetSignatureStatuses = k"
    by (induction k) simp_all
  have s: "count_list (poll_and_sleep k) (Sleep 1000) = k"
    by (induction k) simp_all
  from r q s show ?thesis by simp
qed


theorem confirmTransaction_returns_at_first_success_witness:
  "confirmTransaction (confirmed_at 2) default_maxRetries
     = (Inr (), [GetSignatureStatuses, Sleep 1000, GetSignatureStatuses, Sleep 1000,
                 GetSignatureStatuses])
   \<and> last (snd (confirmTransaction (confirmed_at 2) default_maxRetries))
       = GetSignatureStatuses"
  using confirmTransaction_returns_at_first_success
          [of 2 default_maxRetries "confirmed_at 2"
              "\<lparr>confirmationStatus = Some Confirmed, err = None\<rparr>"]
  by (simp add: confirmed_at_def default_maxRetries_def numeral_2_eq_2)

lemma confirm_loop_last_raise:
  assumes "retries + 1 = maxRetries"
    and "try_status (rpc (count_list tr GetSignatureStatuses)) = Raise e"
  shows "confirm_loop rpc maxRetries retries tr = (Inl e, tr @ [GetSignatureStatuses])"
  using assms by (subst confirm_loop.simps) auto

lemma confirm_loop_last_fall_through:
  assumes "retries + 1 = maxRetries"
    and "try_status (rpc (count_list tr GetSignatureStatuses)) = FallThrough"
  shows "confirm_loop rpc maxRetries retries tr
           = (Inl ''Transaction confirmation timeout'',
              tr @ [GetSignatureStatuses, Sleep 1000])"
  using assms
  by (subst confirm_loop.simps, simp, subst confirm_loop.simps, simp)

lemma confirm_loop_exhausted:
  "maxRetries \<le> retries \<Longrightarrow>
   confirm_loop rpc maxRetries retries tr = (Inl ''Transaction confirmation timeout'', tr)"
  by (subst confirm_loop.simps) simp

text \<open>The run of the loop when none of the remaining \<open>d\<close> queries sees a terminal
  status.\<close>

lemma confirm_loop_no_terminal:
  assumes "retries + d = maxRetries"
    and "\<forall>j<d. \<not> terminal_status (rpc (count_list tr GetSignatureStatuses + j))"
  shows "confirm_loop rpc maxRetries retries tr =
     (case (if d = 0 then RpcValue None
            else rpc (count_list tr GetSignatureStatuses + (d - 1))) of
        RpcError e \<Rightarrow> (Inl e, tr @ poll_and_sleep (d - 1) @ [GetSignatureStatuses])
      | RpcValue v \<Rightarrow> (Inl ''Transaction confirmation timeout'', tr @ poll_and_sleep d))"
  using assms
proof (induction d arbitrary: retries tr)
  case 0
  then show ?case by (simp add: confirm_loop_exhausted)
next
  case (Suc d)
  let ?q = "count_list tr GetSignatureStatuses"
  let ?tr = "tr @ [GetSignatureStatuses, Sleep 1000]"
  have c: "count_list ?tr GetSignatureStatuses = ?q + 1" by simp
  from Suc.prems(2) have nt: "\<not> terminal_status (rpc ?q)"
    by (metis add.right_neutral zero_less_Suc)
  show ?case
  proof (cases d)
    case 0
    with Suc.prems(1) have last: "retries + 1 = maxRetries" by simp
    show ?thesis
    proof (cases "rpc ?q")
      case (RpcError e)
      with nt have "try_status (rpc ?q) = Raise e" by simp
      with last RpcError 0 show ?thesis by (simp add: confirm_loop_last_raise)
    next
      case (RpcValue v)
      with nt have "try_status (rpc ?q) = FallThrough"
        by (simp add: try_status_not_terminal)
      with last RpcValue 0 show ?thesis by (simp add: confirm_loop_last_fall_through)
    qed
  next
    case (Suc d')
    with Suc.prems(1) have more: "retries + 1 < maxRetries" by simp
    from nt have "try_status (rpc ?q) \<noteq> Return"
      by (cases "rpc ?q") (simp_all add: try_status_not_terminal)
    with more have step: "confirm_loop rpc maxRetries retries tr
                            = confirm_loop rpc maxRetries (retries + 1) ?tr"
      by (simp add: confirm_loop_continue)
    have ih: "confirm_loop rpc maxRetries (retries + 1) ?tr =
       (case (if d = 0 then RpcValue None
              else rpc (count_list ?tr GetSignatureStatuses + (d - 1))) of
          RpcError e \<Rightarrow> (Inl e, ?tr @ poll_and_sleep (d - 1) @ [GetSignatureStatuses])
        | RpcValue v \<Rightarrow> (Inl ''Transaction confirmation timeout'', ?tr @ poll_and_sleep d))"
    proof (rule Suc.IH)
      show "retries + 1 + d = maxRetries" using Suc.prems(1) by simp
      show "\<forall>j<d. \<not> terminal_status (rpc (count_list ?tr GetSignatureStatuses + j))"
        using Suc.prems(2) unfolding c by (metis Suc_eq_plus1 Suc_less_eq add_Suc_shift)
    qed
    from Suc have "poll_and_sleep d
                     = [GetSignatureStatuses, Sleep 1000] @ poll_and_sleep (d - 1)"
      by simp
    with step ih Suc show ?thesis
      by (simp add: c split: rpc_reply.split)
  qed
qed

lemma count_poll_and_sleep:
  "count_list (poll_and_sleep n) GetSignatureStatuses = n"
  "count_list (poll_and_sleep n) (Sleep 1000) = n"
  by (induction n) simp_all

lemma confirm_loop_query_bound:
  "count_list (snd (confirm_loop rpc maxRetries retries tr)) GetSignatureStatuses
     \<le> count_list tr GetSignatureStatuses + (maxRetries - retries)"
proof (induction rpc maxRetries retries tr rule: confirm_loop.induct)
  case (1 rpc maxRetries retries tr)
  then show ?case
    by (subst confirm_loop.simps) (auto split: attempt.splits)
qed

lemma confirmTransaction_query_bound:
  "count_list (snd (confirmTransaction rpc maxRetries)) GetSignatureStatuses \<le> maxRetries"
  using confirm_loop_query_bound [of rpc maxRetries 0 "[]"]
  by (simp add: confirmTransaction_def)

text \<open>
  C7 (as amended): when none of the \<open>maxRetries\<close> status queries sees a terminal status,
  the poller makes exactly \<open>maxRetries\<close> queries and then raises an error: the timeout
  error, after a sleep of 1000 ms behind every query, when the last query was answered,
  and the last query's own error, with no sleep behind that query, when the last query
  failed. The default for \<open>maxRetries\<close> is 30.
\<close>

theorem confirmTransaction_no_terminal_status:
  assumes "\<forall>j<maxRetries. \<not> terminal_status (rpc j)"
  shows "count_list (snd (confirmTransaction rpc maxRetries)) GetSignatureStatuses = maxRetries
       \<and> (maxRetries = 0 \<or> (\<exists>v. rpc (maxRetries - 1) = RpcValue v) \<longrightarrow>
            confirmTransaction rpc maxRetries
              = (Inl ''Transaction confirmation timeout'', poll_and_sleep maxRetries))
       \<and> (0 < maxRetries \<and> rpc (maxRetries - 1) = RpcError e \<longrightarrow>
            confirmTransaction rpc maxRetries
              = (Inl e, poll_and_sleep (maxRetries - 1) @ [GetSignatureStatuses]))
       \<and> default_maxRetries = 30"
proof -
  have run: "confirmTransaction rpc maxRetries =
     (case (if maxRetries = 0 then RpcValue None else rpc (maxRetries - 1)) of
        RpcError e \<Rightarrow> (Inl e, poll_and_sleep (maxRetries - 1) @ [GetSignatureStatuses])
      | RpcValue v \<Rightarrow> (Inl ''Transaction confirmation timeout'', poll_and_sleep maxRetries))"
    unfolding confirmTransaction_def
    using confirm_loop_no_terminal [of 0 maxRetries maxRetries rpc "[]"] assms
    by (cases "maxRetries = 0"; cases "rpc (maxRetries - 1)") simp_all
  have n: "count_list (snd (confirmTransaction rpc maxRetries)) GetSignatureStatuses
             = maxRetries"
    unfolding run
    by (cases "maxRetries = 0")
       (auto simp add: count_poll_and_sleep split: rpc_reply.split)
  from run n show ?thesis
    by (auto simp add: default_maxRetries_def)
qed


lemma confirmTransaction_pending:
  "confirmTransaction pending_rpc default_maxRetries
     = (Inl ''Transaction confirmation timeout'', poll_and_sleep 30)"
  unfolding confirmTransaction_def default_maxRetries_def
  using confirm_loop_no_terminal [of 0 30 30 pending_rpc "[]"]
  by (simp add: pending_rpc_def)

lemma confirmTransaction_unreachable:
  "confirmTransaction unreachable_rpc default_maxRetries
     = (Inl ''fetch failed'', poll_and_sleep 29 @ [GetSignatureStatuses])"
  unfolding confirmTransaction_def default_maxRetries_def
  using confirm_loop_no_terminal [of 0 30 30 unreachable_rpc "[]"]
  by (simp add: unreachable_rpc_def)

theorem confirmTransaction_no_terminal_status_witness:
  "confirmTransaction pending_rpc default_maxRetries
     = (Inl ''Transaction confirmation timeout'', poll_and_sleep 30)
   \<and> count_list (snd (confirmTransaction pending_rpc default_maxRetries))
         GetSignatureStatuses = 30
   \<and> confirmTransaction unreachable_rpc default_maxRetries
     = (Inl ''fetch failed'', poll_and_sleep 29 @ [GetSignatureStatuses])"
proof -
  have w1: "confirmTransaction pending_rpc default_maxRetries
     = (Inl ''Transaction confirmation timeout'', poll_and_sleep 30)
   \<and> count_list (snd (confirmTransaction pending_rpc default_maxRetries))
         GetSignatureStatuses = 30"
    using confirmTransaction_no_terminal_status [of default_maxRetries pending_rpc "[]"]
    by (simp add: pending_rpc_def default_maxRetries_def count_poll_and_sleep)
  have w2: "confirmTransaction unreachable_rpc default_maxRetries
     = (Inl ''fetch failed'', poll_and_sleep 29 @ [GetSignatureStatuses])"
    using confirmTransaction_no_terminal_status
            [of default_maxRetries unreachable_rpc "''fetch failed''"]
    by (simp add: unreachable_rpc_def default_maxRetries_def)
  from w1 w2 show ?thesis by blast
qed

text \<open>With a node that cannot be reached no query sees a terminal status, and the
  poller ends with the error of the thirtieth query instead of the timeout error.\<close>

theorem confirmTransaction_no_terminal_status_counterexample:
  "filter terminal_status (map unreachable_rpc [0..<30]) = []
   \<and> default_maxRetries = 30
   \<and> confirmTransaction unreachable_rpc default_maxRetries
       = (Inl ''fetch failed'', poll_and_sleep 29 @ [GetSignatureStatuses])
   \<and> fst (confirmTransaction unreachable_rpc default_maxRetries)
       \<noteq> Inl ''Transaction confirmation timeout''"
proof -
  have "filter terminal_status (map unreachable_rpc [0..<30]) = []"
    by (simp add: filter_empty_conv unreachable_rpc_def)
  moreover have "default_maxRetries = 30"
    by (simp add: default_maxRetries_def)
  ultimately show ?thesis
    by (simp add: confirmTransaction_unreachable)
qed

section \<open>Properties of the transfer\<close>

lemma confirm_loop_no_send:
  "count_list (snd (confirm_loop rpc maxRetries retries tr)) SendTransaction
     = count_list tr SendTransaction"
proof (induction rpc maxRetries retries tr rule: confirm_loop.induct)
  case (1 rpc maxRetries retries tr)
  then show ?case
    by (subst confirm_loop.simps) (auto split: attempt.splits)
qed

lemma confirmTransaction_no_send:
  "count_list (snd (confirmTransaction rpc maxRetries)) SendTransaction = 0"
  by (simp add: confirmTransaction_def confirm_loop_no_send)

lemma transferSol_send_count:
  "count_list (snd (transferSol l destination amount)) SendTransaction
     = (case (latestBlockhash l, signedTransaction l destination amount) of
          (Inr b, Inr sg) \<Rightarrow> 1
        | _ \<Rightarrow> 0)"
  using confirmTransaction_no_send [of "signatureStatuses l" default_maxRetries]
  by (auto simp add: transferSol_def split: sum.splits option.splits prod.splits)

lemma transferSol_after_send:
  assumes "latestBlockhash l = Inr b"
    and "signedTransaction l destination amount = Inr sg"
    and "sendTransaction l = None"
  shows "transferSol l destination amount =
     (case confirmTransaction (signatureStatuses l) default_maxRetries of
        (Inl e, tr) \<Rightarrow>
          (transfer_failed e, [GetLatestBlockhash, SignTransaction, SendTransaction] @ tr)
      | (Inr u, tr) \<Rightarrow>
          (\<lparr>success = True, signature = Some sg, transfer_error = None\<rparr>,
           [GetLatestBlockhash, SignTransaction, SendTransaction] @ tr))"
  using assms by (simp add: transferSol_def)

text \<open>
  C8: one call of \<open>transferSol\<close> submits the transaction at most once. When the
  submission itself is refused, or when the confirmation that follows it raises an error
  (the timeout included), the call reports failure with that error and its trace holds
  exactly one submission.
\<close>

theorem transferSol_submits_at_most_once:
  "count_list (snd (transferSol l destination amount)) SendTransaction \<le> 1
   \<and> (success (fst (transferSol l destination amount))
        \<longleftrightarrow> transfer_error (fst (transferSol l destination amount)) = None)
   \<and> (latestBlockhash l = Inr b \<and> signedTransaction l destination amount = Inr sg
        \<and> sendTransaction l = Some e \<longrightarrow>
        transferSol l destination amount
          = (transfer_failed e, [GetLatestBlockhash, SignTransaction, SendTransaction]))
   \<and> (latestBlockhash l = Inr b \<and> signedTransaction l destination amount = Inr sg
        \<and> sendTransaction l = None
        \<and> fst (confirmTransaction (signatureStatuses l) default_maxRetries) = Inl e \<longrightarrow>
        fst (transferSol l destination amount) = transfer_failed e
        \<and> count_list (snd (transferSol l destination amount)) SendTransaction = 1)"
proof -
  have a: "count_list (snd (transferSol l destination amount)) SendTransaction \<le> 1"
    by (simp add: transferSol_send_count split: sum.split)
  have b: "success (fst (transferSol l destination amount))
        \<longleftrightarrow> transfer_error (fst (transferSol l destination amount)) = None"
    by (auto simp add: transferSol_def transfer_failed_def
          split: sum.splits option.splits prod.splits)
  have c: "latestBlockhash l = Inr b \<and> signedTransaction l destination amount = Inr sg
        \<and> sendTransaction l = Some e \<longrightarrow>
        transferSol l destination amount
          = (transfer_failed e, [GetLatestBlockhash, SignTransaction, SendTransaction])"
    by (simp add: transferSol_def)
  have d: "latestBlockhash l = Inr b \<and> signedTransaction l destination amount = Inr sg
        \<and> sendTransaction l = None
        \<and> fst (confirmTransaction (signatureStatuses l) default_maxRetries) = Inl e \<longrightarrow>
        fst (transferSol l destination amount) = transfer_failed e
        \<and> count_list (snd (transferSol l destination amount)) SendTransaction = 1"
  proof
    assume h: "latestBlockhash l = Inr b \<and> signedTransaction l destination amount = Inr sg
        \<and> sendTransaction l = None
        \<and> fst (confirmTransaction (signatureStatuses l) default_maxRetries) = Inl e"
    then have "fst (transferSol l destination amount) = transfer_failed e"
      by (auto simp add: transferSol_after_send split: prod.splits)
    moreover from h
    have "count_list (snd (transferSol l destination amount)) SendTransaction = 1"
      by (simp add: transferSol_send_count)
    ultimately show "fst (transferSol l destination amount) = transfer_failed e
        \<and> count_list (snd (transferSol l destination amount)) SendTransaction = 1"
      by simp
  qed
  from a b c d show ?thesis by blast
qed

theorem transferSol_submits_at_most_once_witness:
  "transferSol (example_ledger pending_rpc) ''M1'' 100000000
     = (transfer_failed ''Transaction confirmation timeout'',
        [GetLatestBlockhash, SignTransaction, SendTransaction] @ poll_and_sleep 30)
   \<and> count_list (snd (transferSol (example_ledger pending_rpc) ''M1'' 100000000))
        SendTransaction = 1
   \<and> transferSol ((example_ledger pending_rpc)\<lparr>sendTransaction := Some ''rejected''\<rparr>)
        ''M1'' 100000000
     = (transfer_failed ''rejected'', [GetLatestBlockhash, SignTransaction, SendTransaction])"
proof -
  note t = transferSol_submits_at_most_once
  have w1: "fst (transferSol (example_ledger pending_rpc) ''M1'' 100000000)
              = transfer_failed ''Transaction confirmation timeout''
     \<and> count_list (snd (transferSol (example_ledger pending_rpc) ''M1'' 100000000))
        SendTransaction = 1"
    using t [of "example_ledger pending_rpc" "''M1''" 100000000 "''blockhash1''" "''sig1''"
                "''Transaction confirmation timeout''"]
    by (simp add: example_ledger_def confirmTransaction_pending)
  have w2: "snd (transferSol (example_ledger pending_rpc) ''M1'' 100000000)
              = [GetLatestBlockhash, SignTransaction, SendTransaction] @ poll_and_sleep 30"
    using transferSol_after_send
            [of "example_ledger pending_rpc" "''blockhash1''" "''M1''" 100000000 "''sig1''"]
    by (simp add: example_ledger_def confirmTransaction_pending)
  have w3: "transferSol ((example_ledger pending_rpc)\<lparr>sendTransaction := Some ''rejected''\<rparr>)
        ''M1'' 100000000
     = (transfer_failed ''rejected'', [GetLatestBlockhash, SignTransaction, SendTransaction])"
    using t [of "(example_ledger pending_rpc)\<lparr>sendTransaction := Some ''rejected''\<rparr>"
                "''M1''" 100000000 "''blockhash1''" "''sig1''" "''rejected''"]
    by (simp add: example_ledger_def)
  from w1 w2 w3 show ?thesis by (metis prod.collapse)
qed

end
